theory Spec2Isabelle
  imports Complex_Main
begin

section \<open>Values, exceptions and the telemetry state\<close>

text \<open>
  The two services (\<^verbatim>\<open>document-api\<close> and \<^verbatim>\<open>data-store\<close>) share one observability core:
  \<^verbatim>\<open>telemetry.py\<close> holds the correlation id in a \<^verbatim>\<open>ContextVar\<close>, \<^verbatim>\<open>observability.py\<close>
  builds label sets, span attributes and log records around it, and \<^verbatim>\<open>main.py\<close> wires the
  timing middleware and the health check.

  Floats are the readings of \<^verbatim>\<open>time.time()\<close> and their differences. A float is carried
  as the decimal its \<^verbatim>\<open>repr\<close> prints, \<open>Dec m e\<close> for \<open>m\<close> times ten to the power \<open>e\<close>, and
  subtraction is exact on these decimals: the model does not round to binary doubles, so
  the last digits of a difference can differ from Python's; subtracting \<^verbatim>\<open>0.0\<close> is exact in
  both.
\<close>

datatype pyfloat = Dec (mantissa: int) (exponent: int)

instantiation pyfloat :: minus
begin

definition minus_pyfloat :: "pyfloat \<Rightarrow> pyfloat \<Rightarrow> pyfloat" where
  "x - y =
     (let e = min (exponent x) (exponent y)
      in Dec (mantissa x * 10 ^ nat (exponent x - e) - mantissa y * 10 ^ nat (exponent y - e))
             e)"

instance ..

end

text \<open>
  Python values that end up in a label set, a span attribute or a log record are strings,
  booleans, floats and ints.
\<close>

datatype pyval = PStr string | PBool bool | PFloat pyfloat | PInt int

type_synonym pydict = "string \<rightharpoonup> pyval"

text \<open>
  A raised exception, seen through the two things the code reads from it:
  \<^verbatim>\<open>exc_type.__name__\<close> and \<^verbatim>\<open>str(exc_val)\<close>.
\<close>

datatype exn = Exn (exc_type_name: string) (exc_str: string)

datatype service = DocumentApi | DataStore

text \<open>
  The fixed service-identity entries of every dict literal in \<^verbatim>\<open>observability.py\<close>:
  \<^verbatim>\<open>"service": "document-api"\<close> in the document API, and
  \<^verbatim>\<open>"service": "data-store", "service_type": "database_service"\<close> in the data store.
\<close>

fun service_fields :: "service \<Rightarrow> pydict" where
  "service_fields DocumentApi = [''service'' \<mapsto> PStr ''document-api'']"
| "service_fields DataStore =
     [''service'' \<mapsto> PStr ''data-store'', ''service_type'' \<mapsto> PStr ''database_service'']"

record metric_sample =
  instrument :: string
  amount :: pyval
  labels :: pydict

datatype log_level = Debug | Info | Warning | Error | Critical

record log_record =
  lr_level :: log_level
  lr_message :: string
  lr_extra :: pydict

text \<open>
  The observable state: the value of the \<^verbatim>\<open>correlation_id\<close> context variable in the
  current context (\<open>None\<close> while nothing was ever set there), the samples handed to the
  meter's instruments in emission order, the records the module logger built and handed to
  its handlers, in order, and the wall clock: \<open>clock w n\<close> is what the \<open>n\<close>-th call of \<^verbatim>\<open>time.time()\<close> returns and
  \<open>ticks\<close> counts the calls made so far.
\<close>

record world =
  ctx_correlation_id :: "string option"
  samples :: "metric_sample list"
  log_records :: "log_record list"
  clock :: "nat \<Rightarrow> pyfloat"
  ticks :: nat

definition initial_world :: world where
  "initial_world =
     \<lparr>ctx_correlation_id = None, samples = [], log_records = [],
      clock = (\<lambda>n. Dec (int n) 0), ticks = 0\<rparr>"

definition time_time :: "world \<Rightarrow> pyfloat \<times> world" where
  "time_time w = (clock w (ticks w), w\<lparr>ticks := ticks w + 1\<rparr>)"

section \<open>telemetry.py: the correlation id\<close>

text \<open>
  \<^verbatim>\<open>correlation_id: ContextVar[str] = ContextVar("correlation_id", default="")\<close>;
  \<^verbatim>\<open>get\<close> returns the default while the variable has no value in the context.
\<close>

definition correlation_id_default :: string where
  "correlation_id_default = ''''"

definition get_correlation_id :: "world \<Rightarrow> string" where
  "get_correlation_id w =
     (case ctx_correlation_id w of None \<Rightarrow> correlation_id_default | Some v \<Rightarrow> v)"

definition set_correlation_id :: "string \<Rightarrow> world \<Rightarrow> world" where
  "set_correlation_id corr_id w = w\<lparr>ctx_correlation_id := Some corr_id\<rparr>"

section \<open>The metric instruments, the logger and the tracer\<close>

text \<open>
  \<^verbatim>\<open>counter.add(amount, attributes)\<close> and \<^verbatim>\<open>histogram.record(amount, attributes)\<close> hand one
  sample to the instrument; the instrument is identified by the name it was created with.
  A call without attributes carries the empty label set.
\<close>

definition counter_add :: "string \<Rightarrow> int \<Rightarrow> pydict \<Rightarrow> world \<Rightarrow> world" where
  "counter_add name n attrs w =
     w\<lparr>samples := samples w @ [\<lparr>instrument = name, amount = PInt n, labels = attrs\<rparr>]\<rparr>"

definition histogram_record :: "string \<Rightarrow> pyfloat \<Rightarrow> pydict \<Rightarrow> world \<Rightarrow> world" where
  "histogram_record name x attrs w =
     w\<lparr>samples := samples w
           @ [\<lparr>instrument = name, amount = PFloat x, labels = attrs\<rparr>]\<rparr>"

text \<open>
  The standard library's \<^verbatim>\<open>Logger.debug/info/warning/error/critical(msg, extra=d)\<close>.
  The call first tests \<^verbatim>\<open>isEnabledFor(level)\<close> and does nothing when the level is below the
  logger's effective level. Both \<^verbatim>\<open>main.py\<close> call \<^verbatim>\<open>logging.basicConfig(level=logging.INFO)\<close>
  and the module logger of \<^verbatim>\<open>observability.py\<close> sets no level of its own, so its effective
  level is \<^verbatim>\<open>INFO\<close>. For an enabled level the record is built: that refuses, with a
  \<^verbatim>\<open>KeyError\<close>, an \<^verbatim>\<open>extra\<close> key that would overwrite an attribute of the \<^verbatim>\<open>LogRecord\<close>
  (or \<^verbatim>\<open>message\<close>, \<^verbatim>\<open>asctime\<close>); otherwise the record is handed to the handlers. The text
  of the \<^verbatim>\<open>KeyError\<close> is shortened: the library's names the offending key. This is why the
  services pass \<^verbatim>\<open>file_name=\<close> and \<^verbatim>\<open>log_message\<close> and never \<^verbatim>\<open>filename=\<close> or \<^verbatim>\<open>message\<close>.
\<close>

fun levelno :: "log_level \<Rightarrow> nat" where
  "levelno Debug = 10"
| "levelno Info = 20"
| "levelno Warning = 30"
| "levelno Error = 40"
| "levelno Critical = 50"

definition effective_level :: log_level where
  "effective_level = Info"

definition isEnabledFor :: "log_level \<Rightarrow> bool" where
  "isEnabledFor lvl = (levelno effective_level \<le> levelno lvl)"

definition logrecord_attributes :: "string list" where
  "logrecord_attributes =
     [''message'', ''asctime'', ''name'', ''msg'', ''args'', ''levelname'', ''levelno'',
      ''pathname'', ''filename'', ''module'', ''exc_info'', ''exc_text'', ''stack_info'',
      ''lineno'', ''funcName'', ''created'', ''msecs'', ''relativeCreated'', ''thread'',
      ''threadName'', ''processName'', ''process'', ''taskName'']"

definition logger_log ::
  "log_level \<Rightarrow> string \<Rightarrow> pydict \<Rightarrow> world \<Rightarrow> (exn + unit) \<times> world" where
  "logger_log lvl msg extra w =
     (if \<not> isEnabledFor lvl then (Inr (), w)
      else if list_ex (\<lambda>k. extra k \<noteq> None) logrecord_attributes
      then (Inl (Exn ''KeyError'' ''Attempt to overwrite an attribute in LogRecord''), w)
      else (Inr (),
            w\<lparr>log_records := log_records w
                 @ [\<lparr>lr_level = lvl, lr_message = msg, lr_extra = extra\<rparr>]\<rparr>))"

text \<open>
  A span as the code uses it: created by \<^verbatim>\<open>tracer.start_span\<close> with a name and an attribute
  dict, mutated by \<^verbatim>\<open>set_attribute\<close>, finished by \<^verbatim>\<open>end()\<close>. The object is owned by the
  block that created it, so it is a value passed along; \<open>span_end_calls\<close> counts the calls
  of \<^verbatim>\<open>end()\<close>. The span is finished by the first of them, and the SDK's span ignores
  \<^verbatim>\<open>set_attribute\<close> on a finished span: its attributes are mutable until it is closed.
\<close>

record span =
  span_name :: string
  span_attributes :: pydict
  span_end_calls :: nat

definition start_span :: "string \<Rightarrow> pydict \<Rightarrow> span" where
  "start_span name attrs = \<lparr>span_name = name, span_attributes = attrs, span_end_calls = 0\<rparr>"

definition set_attribute :: "string \<Rightarrow> pyval \<Rightarrow> span \<Rightarrow> span" where
  "set_attribute k v sp =
     (if 0 < span_end_calls sp then sp
      else sp\<lparr>span_attributes := (span_attributes sp)(k \<mapsto> v)\<rparr>)"

definition span_end :: "span \<Rightarrow> span" where
  "span_end sp = sp\<lparr>span_end_calls := span_end_calls sp + 1\<rparr>"

text \<open>
  Python binds keyword arguments to named parameters first: a call
  \<^verbatim>\<open>f(a, b, **d)\<close> of \<^verbatim>\<open>def f(x, y, **kw)\<close> raises \<^verbatim>\<open>TypeError\<close> (multiple values for an
  argument) when \<^verbatim>\<open>d\<close> has the key \<^verbatim>\<open>x\<close> or \<^verbatim>\<open>y\<close>, before the body runs.
\<close>

definition binds_parameter :: "string list \<Rightarrow> pydict \<Rightarrow> bool" where
  "binds_parameter params kw = list_ex (\<lambda>p. kw p \<noteq> None) params"

definition multiple_values :: exn where
  "multiple_values = Exn ''TypeError'' ''got multiple values for argument''"

section \<open>observability.py\<close>

text \<open>Decimal rendering of an int, for \<^verbatim>\<open>str(response.status_code)\<close> and for floats.\<close>

function str_nat :: "nat \<Rightarrow> string" where
  "str_nat n =
     (if n < 10 then [''0123456789'' ! n]
      else str_nat (n div 10) @ [''0123456789'' ! (n mod 10)])"
  by pat_completeness auto
termination
  by (relation "measure id") auto

declare str_nat.simps [simp del]

definition str_int :: "int \<Rightarrow> string" where
  "str_int i = (if i < 0 then ''-'' @ str_nat (nat (- i)) else str_nat (nat i))"

record request =
  req_method :: string
  req_path :: string

text \<open>
  \<^verbatim>\<open>str(x)\<close> of a float, which is \<^verbatim>\<open>repr(x)\<close>: the shortest digits that identify the float,
  here the digits of the mantissa without trailing zeros, and the position \<open>repr_decpt\<close> of
  the decimal point relative to the first digit (a nonzero \<open>x\<close> with \<open>repr_decpt x = d\<close> has
  an absolute value from ten to the power \<open>d - 1\<close> up to, not including, ten to the power
  \<open>d\<close>). CPython prints exponent notation when that position is at most \<open>-4\<close> or above
  \<open>16\<close>, with a sign and at least two digits of exponent, and positional notation with at
  least one digit after the point otherwise.
\<close>

definition repr_digits :: "pyfloat \<Rightarrow> string" where
  "repr_digits x =
     (let t = rev (dropWhile (\<lambda>c. c = CHR ''0'') (rev (str_nat (nat \<bar>mantissa x\<bar>))))
      in if t = [] then ''0'' else t)"

definition repr_decpt :: "pyfloat \<Rightarrow> int" where
  "repr_decpt x =
     (if mantissa x = 0 then 1
      else exponent x + int (length (str_nat (nat \<bar>mantissa x\<bar>))))"

definition exponent_text :: "int \<Rightarrow> string" where
  "exponent_text k =
     (if k < 0 then ''-'' else ''+'')
     @ (if \<bar>k\<bar> < 10 then ''0'' else []) @ str_nat (nat \<bar>k\<bar>)"

definition float_str :: "pyfloat \<Rightarrow> string" where
  "float_str x =
     (let digits = repr_digits x; n = length digits; decpt = repr_decpt x
      in (if mantissa x < 0 then ''-'' else [])
         @ (if decpt \<le> - 4 \<or> 16 < decpt
            then take 1 digits @ (if 1 < n then ''.'' @ drop 1 digits else [])
                 @ ''e'' @ exponent_text (decpt - 1)
            else if decpt \<le> 0
            then ''0.'' @ replicate (nat (- decpt)) (CHR ''0'') @ digits
            else if nat decpt < n
            then take (nat decpt) digits @ ''.'' @ drop (nat decpt) digits
            else digits @ replicate (nat decpt - n) (CHR ''0'') @ ''.0''))"

record response =
  status_code :: int
  headers :: "string \<rightharpoonup> string"
  body :: string

definition log_request_metrics ::
  "service \<Rightarrow> request \<Rightarrow> response \<Rightarrow> pyfloat \<Rightarrow> world \<Rightarrow> world" where
  "log_request_metrics svc req resp duration w =
     (let correlation_id = get_correlation_id w;
          w1 = counter_add ''http_requests_total'' 1
                 ([''method'' \<mapsto> PStr (req_method req),
                   ''path'' \<mapsto> PStr (req_path req),
                   ''status_code'' \<mapsto> PStr (str_int (status_code resp)),
                   ''correlation_id'' \<mapsto> PStr correlation_id] ++ service_fields svc) w;
          w2 = histogram_record ''http_request_duration_seconds'' duration
                 ([''method'' \<mapsto> PStr (req_method req),
                   ''path'' \<mapsto> PStr (req_path req),
                   ''correlation_id'' \<mapsto> PStr correlation_id] ++ service_fields svc) w1
      in if status_code resp \<ge> 400
         then counter_add ''http_errors_total'' 1
                (([''method'' \<mapsto> PStr (req_method req),
                   ''path'' \<mapsto> PStr (req_path req),
                   ''status_code'' \<mapsto> PStr (str_int (status_code resp)),
                   ''correlation_id'' \<mapsto> PStr correlation_id] ++ service_fields svc)
                 (''error_category'' \<mapsto>
                    PStr (if status_code resp < 500 then ''4xx'' else ''5xx''))) w2
         else w2)"

text \<open>
  \<^verbatim>\<open>create_span(name, operation, **attributes)\<close>: the dict literal lists the built-in
  entries first and \<^verbatim>\<open>**attributes\<close> last, so a later entry replaces an earlier one with
  the same key.
\<close>

definition create_span ::
  "service \<Rightarrow> string \<Rightarrow> string \<Rightarrow> pydict \<Rightarrow> world \<Rightarrow> exn + span" where
  "create_span svc name operation attributes w =
     (if binds_parameter [''name'', ''operation''] attributes then Inl multiple_values
      else
        let correlation_id = get_correlation_id w;
            span_attrs = ([''correlation_id'' \<mapsto> PStr correlation_id,
                           ''operation'' \<mapsto> PStr operation] ++ service_fields svc)
                         ++ attributes
        in Inr (start_span name span_attrs))"

text \<open>
  \<^verbatim>\<open>log_with_context(message, level="info", **kwargs)\<close>: one call of the logger at the
  level named by the string, \<^verbatim>\<open>info\<close> for any other string. There is no
  \<^verbatim>\<open>try\<close> in the function: what the logger raises leaves it.
\<close>

definition log_with_context ::
  "service \<Rightarrow> string \<Rightarrow> string \<Rightarrow> pydict \<Rightarrow> world \<Rightarrow> (exn + unit) \<times> world" where
  "log_with_context svc message level kwargs w =
     (if binds_parameter [''message'', ''level''] kwargs then (Inl multiple_values, w)
      else
        let correlation_id = get_correlation_id w;
            (ts, w1) = time_time w;
            log_data = (([''correlation_id'' \<mapsto> PStr correlation_id,
                          ''log_message'' \<mapsto> PStr message] ++ service_fields svc)
                        (''timestamp'' \<mapsto> PFloat ts)) ++ kwargs
        in if level = ''debug'' then logger_log Debug message log_data w1
           else if level = ''info'' then logger_log Info message log_data w1
           else if level = ''warning'' then logger_log Warning message log_data w1
           else if level = ''error'' then logger_log Error message log_data w1
           else if level = ''critical'' then logger_log Critical message log_data w1
           else logger_log Info message log_data w1)"

text \<open>
  \<^verbatim>\<open>track_db_operation(operation, table, **attributes)\<close> of the data store. The tracker
  class is local to the call; its \<^verbatim>\<open>__exit__\<close> reads \<^verbatim>\<open>operation\<close>, \<^verbatim>\<open>table\<close> and
  \<^verbatim>\<open>correlation_id\<close> from the enclosing call, so the correlation id it reports is the one
  read when the tracker was made (\<open>tr_correlation_id\<close>).
\<close>

record db_operation_tracker =
  tr_span :: span
  tr_operation :: string
  tr_table :: string
  tr_start_time :: "pyfloat option"
  tr_correlation_id :: string

definition track_db_operation ::
  "string \<Rightarrow> string \<Rightarrow> pydict \<Rightarrow> world \<Rightarrow> exn + db_operation_tracker" where
  "track_db_operation operation table attributes w =
     (if binds_parameter [''operation'', ''table''] attributes then Inl multiple_values
      else
        let correlation_id = get_correlation_id w
        in case create_span DataStore (''db_'' @ operation) ''database_operation''
                  (attributes(''table'' \<mapsto> PStr table)) w of
             Inl e \<Rightarrow> Inl e
           | Inr sp \<Rightarrow>
               Inr \<lparr>tr_span = sp, tr_operation = operation, tr_table = table,
                    tr_start_time = None, tr_correlation_id = correlation_id\<rparr>)"

definition DBOperationTracker_enter ::
  "db_operation_tracker \<Rightarrow> world \<Rightarrow> db_operation_tracker \<times> world" where
  "DBOperationTracker_enter tr w =
     (let (now, w1) = time_time w in (tr\<lparr>tr_start_time := Some now\<rparr>, w1))"

text \<open>
  \<^verbatim>\<open>__exit__(exc_type, exc_val, exc_tb)\<close>; \<open>exc\<close> is \<open>None\<close> when the block completed. The
  method has no \<^verbatim>\<open>return\<close>: the \<open>bool\<close> of a normal result is the truth value of the
  returned \<^verbatim>\<open>None\<close>, which tells the \<^verbatim>\<open>with\<close> statement not to swallow the exception.
\<close>

definition DBOperationTracker_exit ::
  "exn option \<Rightarrow> db_operation_tracker \<Rightarrow> world
     \<Rightarrow> (exn + bool) \<times> db_operation_tracker \<times> world" where
  "DBOperationTracker_exit exc tr w =
     (let (now, w0) = time_time w
      in case tr_start_time tr of
           None \<Rightarrow> (Inl (Exn ''TypeError'' ''unsupported operand type(s) for -''), tr, w0)
         | Some start_time \<Rightarrow>
             (let duration = now - start_time;
                 w1 = counter_add ''database_operations_total'' 1
                        ([''operation'' \<mapsto> PStr (tr_operation tr),
                          ''table'' \<mapsto> PStr (tr_table tr),
                          ''success'' \<mapsto> PBool (exc = None),
                          ''correlation_id'' \<mapsto> PStr (tr_correlation_id tr)]
                         ++ service_fields DataStore) w0;
                 w2 = histogram_record ''database_operation_duration_seconds'' duration
                        ([''operation'' \<mapsto> PStr (tr_operation tr),
                          ''table'' \<mapsto> PStr (tr_table tr),
                          ''correlation_id'' \<mapsto> PStr (tr_correlation_id tr)]
                         ++ service_fields DataStore) w1;
                 sp = set_attribute ''operation_type'' (PStr (tr_operation tr))
                        (set_attribute ''table'' (PStr (tr_table tr))
                          (set_attribute ''success'' (PBool (exc = None))
                            (set_attribute ''duration'' (PFloat duration) (tr_span tr))))
             in case exc of
                  Some e \<Rightarrow>
                    let sp' = set_attribute ''error_type'' (PStr (exc_type_name e))
                                (set_attribute ''error'' (PStr (exc_str e)) sp)
                    in (case log_with_context DataStore
                               (''Database operation failed: '' @ tr_operation tr
                                  @ '' on '' @ tr_table tr)
                               ''error''
                               [''operation'' \<mapsto> PStr (tr_operation tr),
                                ''table'' \<mapsto> PStr (tr_table tr),
                                ''error'' \<mapsto> PStr (exc_str e),
                                ''duration'' \<mapsto> PFloat duration] w2 of
                          (Inl e', w3) \<Rightarrow> (Inl e', tr\<lparr>tr_span := sp'\<rparr>, w3)
                        | (Inr u, w3) \<Rightarrow> (Inr False, tr\<lparr>tr_span := span_end sp'\<rparr>, w3))
                | None \<Rightarrow>
                    (case log_with_context DataStore
                            (''Database operation completed: '' @ tr_operation tr
                               @ '' on '' @ tr_table tr)
                            ''debug''
                            [''operation'' \<mapsto> PStr (tr_operation tr),
                             ''table'' \<mapsto> PStr (tr_table tr),
                             ''duration'' \<mapsto> PFloat duration] w2 of
                       (Inl e', w3) \<Rightarrow> (Inl e', tr\<lparr>tr_span := sp\<rparr>, w3)
                     | (Inr u, w3) \<Rightarrow> (Inr False, tr\<lparr>tr_span := span_end sp\<rparr>, w3))))"

text \<open>
  \<^verbatim>\<open>with track_db_operation(operation, table, **attributes) as db_tracker: body\<close>.
  The block may use \<^verbatim>\<open>db_tracker.span\<close> and the telemetry state, and either completes
  (\<open>Inr\<close>) or raises (\<open>Inl\<close>). The statement's outcome is \<open>Inr (Some v)\<close> when the block
  completed with \<open>v\<close>, \<open>Inr None\<close> when \<^verbatim>\<open>__exit__\<close> swallowed the block's exception, and
  \<open>Inl\<close> for an exception that leaves the statement. The second component is the span as
  the statement leaves it (\<open>None\<close> when no tracker was made).
\<close>

definition with_track_db_operation ::
  "string \<Rightarrow> string \<Rightarrow> pydict \<Rightarrow> (span \<Rightarrow> world \<Rightarrow> (exn + 'a) \<times> span \<times> world) \<Rightarrow> world
     \<Rightarrow> (exn + 'a option) \<times> span option \<times> world" where
  "with_track_db_operation operation table attributes block w =
     (case track_db_operation operation table attributes w of
        Inl e \<Rightarrow> (Inl e, None, w)
      | Inr tr0 \<Rightarrow>
          (let (tr1, w1) = DBOperationTracker_enter tr0 w
          in case block (tr_span tr1) w1 of
               (Inl e, sp, w2) \<Rightarrow>
                 (case DBOperationTracker_exit (Some e) (tr1\<lparr>tr_span := sp\<rparr>) w2 of
                    (Inl e', tr3, w3) \<Rightarrow> (Inl e', Some (tr_span tr3), w3)
                  | (Inr swallow, tr3, w3) \<Rightarrow>
                      (if swallow then Inr None else Inl e, Some (tr_span tr3), w3))
             | (Inr v, sp, w2) \<Rightarrow>
                 (case DBOperationTracker_exit None (tr1\<lparr>tr_span := sp\<rparr>) w2 of
                    (Inl e', tr3, w3) \<Rightarrow> (Inl e', Some (tr_span tr3), w3)
                  | (Inr swallow, tr3, w3) \<Rightarrow> (Inr (Some v), Some (tr_span tr3), w3))))"

section \<open>main.py: the timing middleware and the health check\<close>

text \<open>
  \<^verbatim>\<open>add_process_time_header(request, call_next)\<close>, the same in both services.
  \<open>call_next\<close> runs the rest of the application: it returns a response or lets an
  exception through. The function has no \<^verbatim>\<open>try\<close>.
\<close>

definition add_process_time_header ::
  "service \<Rightarrow> (request \<Rightarrow> world \<Rightarrow> (exn + response) \<times> world) \<Rightarrow> request \<Rightarrow> world
     \<Rightarrow> (exn + response) \<times> world" where
  "add_process_time_header svc call_next req w =
     (let (start_time, w1) = time_time w
      in case call_next req w1 of
           (Inl e, w2) \<Rightarrow> (Inl e, w2)
         | (Inr resp, w2) \<Rightarrow>
             let (now, w3) = time_time w2;
                 process_time = now - start_time;
                 resp' = resp\<lparr>headers := (headers resp)
                                 (''X-Process-Time'' \<mapsto> float_str process_time)\<rparr>;
                 w4 = log_request_metrics svc req resp' process_time w3
             in (Inr resp', w4))"

text \<open>
  The \<^verbatim>\<open>except Exception as e\<close> branch that closes \<^verbatim>\<open>health_check()\<close> in both services.
  Of the JSON body the status and the error text are kept.
\<close>

record health_report =
  hr_status :: string
  hr_error :: "string option"

definition health_check_failed ::
  "service \<Rightarrow> pyfloat \<Rightarrow> exn \<Rightarrow> world \<Rightarrow> (exn + health_report) \<times> world" where
  "health_check_failed svc start_time e w =
     (let w1 = counter_add ''health_check_total'' 1 [''status'' \<mapsto> PStr ''unhealthy''] w;
          (now, w2) = time_time w1;
          w3 = histogram_record ''health_check_duration_seconds'' (now - start_time)
                 Map.empty w2
      in case log_with_context svc (''Health check failed: '' @ exc_str e) ''error''
                Map.empty w3 of
           (Inl e', w4) \<Rightarrow> (Inl e', w4)
         | (Inr u, w4) \<Rightarrow>
             (Inr \<lparr>hr_status = ''unhealthy'', hr_error = Some (exc_str e)\<rparr>, w4))"

text \<open>
  \<^verbatim>\<open>health_check()\<close> of the document API. Its inputs are the outcomes of the probes it
  makes: whether the uploads directory exists and is a directory, whether
  \<^verbatim>\<open>get_settings()\<close> raises, and the status code or the exception of the request to the
  data store.
\<close>

definition health_check ::
  "bool \<Rightarrow> exn + unit \<Rightarrow> exn + int \<Rightarrow> world \<Rightarrow> (exn + health_report) \<times> world" where
  "health_check fs_ok settings probe w =
     (let (start_time, w0) = time_time w;
          fs_status = (if fs_ok then ''healthy'' else ''unhealthy'')
      in case settings of
           Inl e \<Rightarrow> health_check_failed DocumentApi start_time e w0
         | Inr u \<Rightarrow>
             (let data_store_status =
                   (case probe of
                      Inl e \<Rightarrow> ''unhealthy''
                    | Inr code \<Rightarrow> if code = 200 then ''healthy'' else ''unhealthy'');
                 overall_status =
                   (if fs_status = ''healthy'' \<and> data_store_status = ''healthy''
                    then ''healthy'' else ''degraded'');
                 w1 = counter_add ''health_check_total'' 1
                        [''status'' \<mapsto> PStr overall_status] w0;
                 (now, w2) = time_time w1;
                 w3 = histogram_record ''health_check_duration_seconds'' (now - start_time)
                        Map.empty w2
             in case log_with_context DocumentApi ''Health check completed'' ''info''
                       [''overall_status'' \<mapsto> PStr overall_status,
                        ''fs_status'' \<mapsto> PStr fs_status,
                        ''data_store_status'' \<mapsto> PStr data_store_status] w3 of
                  (Inl e, w4) \<Rightarrow> health_check_failed DocumentApi start_time e w4
                | (Inr u, w4) \<Rightarrow>
                    (Inr \<lparr>hr_status = overall_status, hr_error = None\<rparr>, w4)))"

text \<open>
  \<^verbatim>\<open>health_check()\<close> of the data store. Its first inner \<^verbatim>\<open>try\<close> queries the database
  (\<open>db_query\<close>: the outcome of getting a session and of \<^verbatim>\<open>SELECT 1\<close>), reads the clock for
  the latency and closes the session (\<open>db_close\<close>); its handler sets the status and logs.
  The result is the status and the latency (\<^verbatim>\<open>0\<close> until measured), or the exception of the
  handler's own \<^verbatim>\<open>log_with_context\<close>, which reaches the outer handler.
\<close>

definition health_db_check ::
  "pyfloat \<Rightarrow> exn + unit \<Rightarrow> exn + unit \<Rightarrow> world \<Rightarrow> (exn + string \<times> pyval) \<times> world" where
  "health_db_check start_time db_query db_close w =
     (case db_query of
        Inl e \<Rightarrow>
          (case log_with_context DataStore (''Database health check failed: '' @ exc_str e)
                  ''error'' Map.empty w of
             (Inl e', w1) \<Rightarrow> (Inl e', w1)
           | (Inr u, w1) \<Rightarrow> (Inr (''unhealthy'', PInt 0), w1))
      | Inr u \<Rightarrow>
          (let (now, w1) = time_time w;
               db_latency = PFloat (now - start_time)
           in case db_close of
                Inl e \<Rightarrow>
                  (case log_with_context DataStore
                          (''Database health check failed: '' @ exc_str e) ''error''
                          Map.empty w1 of
                     (Inl e', w2) \<Rightarrow> (Inl e', w2)
                   | (Inr u, w2) \<Rightarrow> (Inr (''unhealthy'', db_latency), w2))
              | Inr u \<Rightarrow> (Inr (''healthy'', db_latency), w1)))"

text \<open>
  The second inner \<^verbatim>\<open>try\<close>: \<open>tables_query\<close> is the outcome of the query for the table
  (whether \<^verbatim>\<open>document_metadata\<close> exists), \<open>tables_close\<close> that of closing the session.
\<close>

definition health_tables_check ::
  "exn + bool \<Rightarrow> exn + unit \<Rightarrow> world \<Rightarrow> (exn + string) \<times> world" where
  "health_tables_check tables_query tables_close w =
     (case (case tables_query of
              Inl e \<Rightarrow> Inl e
            | Inr table_exists \<Rightarrow>
                (case tables_close of Inl e \<Rightarrow> Inl e | Inr u \<Rightarrow> Inr table_exists)) of
        Inl e \<Rightarrow>
          (case log_with_context DataStore (''Table check failed: '' @ exc_str e) ''error''
                  Map.empty w of
             (Inl e', w1) \<Rightarrow> (Inl e', w1)
           | (Inr u, w1) \<Rightarrow> (Inr ''unhealthy'', w1))
      | Inr table_exists \<Rightarrow>
          (Inr (if table_exists then ''healthy'' else ''missing_tables''), w))"

definition data_store_health_check ::
  "exn + unit \<Rightarrow> exn + unit \<Rightarrow> exn + bool \<Rightarrow> exn + unit \<Rightarrow> world
     \<Rightarrow> (exn + health_report) \<times> world" where
  "data_store_health_check db_query db_close tables_query tables_close w =
     (let (start_time, w0) = time_time w
      in case health_db_check start_time db_query db_close w0 of
           (Inl e, w1) \<Rightarrow> health_check_failed DataStore start_time e w1
         | (Inr (db_status, db_latency), w1) \<Rightarrow>
             (case health_tables_check tables_query tables_close w1 of
                (Inl e, w2) \<Rightarrow> health_check_failed DataStore start_time e w2
              | (Inr tables_status, w2) \<Rightarrow>
                  (let degraded_status =
                         (if db_status \<noteq> ''healthy'' \<or> tables_status \<noteq> ''healthy''
                          then ''degraded'' else ''healthy'');
                       overall_status =
                         (if db_status = ''unhealthy'' then ''unhealthy''
                          else degraded_status);
                       w3 = counter_add ''health_check_total'' 1
                              [''status'' \<mapsto> PStr overall_status] w2;
                       (now, w4) = time_time w3;
                       w5 = histogram_record ''health_check_duration_seconds''
                              (now - start_time) Map.empty w4
                   in case log_with_context DataStore ''Health check completed'' ''info''
                             [''overall_status'' \<mapsto> PStr overall_status,
                              ''db_status'' \<mapsto> PStr db_status,
                              ''tables_status'' \<mapsto> PStr tables_status,
                              ''db_latency'' \<mapsto> db_latency] w5 of
                        (Inl e, w6) \<Rightarrow> health_check_failed DataStore start_time e w6
                      | (Inr u, w6) \<Rightarrow>
                          (Inr \<lparr>hr_status = overall_status, hr_error = None\<rparr>, w6))))"

section \<open>Observers and example inputs\<close>

text \<open>
  The level a level string selects, the dict \<^verbatim>\<open>log_with_context\<close> builds and the name
  under \<^verbatim>\<open>service\<close>, named so that statements can refer to them.
\<close>

definition severity :: "string \<Rightarrow> log_level" where
  "severity level =
     (if level = ''debug'' then Debug
      else if level = ''info'' then Info
      else if level = ''warning'' then Warning
      else if level = ''error'' then Error
      else if level = ''critical'' then Critical
      else Info)"

definition log_data_of :: "service \<Rightarrow> string \<Rightarrow> pydict \<Rightarrow> world \<Rightarrow> pydict" where
  "log_data_of svc message kwargs w =
     (([''correlation_id'' \<mapsto> PStr (get_correlation_id w),
        ''log_message'' \<mapsto> PStr message] ++ service_fields svc)
      (''timestamp'' \<mapsto> PFloat (clock w (ticks w)))) ++ kwargs"

fun service_name :: "service \<Rightarrow> string" where
  "service_name DocumentApi = ''document-api''"
| "service_name DataStore = ''data-store''"

text \<open>
  The samples a step appends: those of the later state beyond the earlier state's.
  \<open>carries_identity\<close> says that a sample's label set has the service's name under
  \<^verbatim>\<open>service\<close> and the given correlation id under \<^verbatim>\<open>correlation_id\<close>.
\<close>

definition emitted :: "world \<Rightarrow> world \<Rightarrow> metric_sample list" where
  "emitted w w' = drop (length (samples w)) (samples w')"

definition carries_identity :: "service \<Rightarrow> string \<Rightarrow> metric_sample \<Rightarrow> bool" where
  "carries_identity svc cid s =
     (labels s ''service'' = Some (PStr (service_name svc))
      \<and> labels s ''correlation_id'' = Some (PStr cid))"




text \<open>
  A request in flight with correlation id \<^verbatim>\<open>abc-123\<close>, the keyword arguments of the
  data store's \<^verbatim>\<open>get_document_metadata\<close>, and blocks for its tracked query: one that
  raises the 404, one that finds the document, and one that calls
  \<^verbatim>\<open>db_tracker.span.end()\<close> itself before it raises.
\<close>

definition example_world :: world where
  "example_world = set_correlation_id ''abc-123'' initial_world"

definition example_attributes :: pydict where
  "example_attributes = [''client_id'' \<mapsto> PStr ''c-17'', ''document_id'' \<mapsto> PInt 42]"



definition found_block :: "span \<Rightarrow> world \<Rightarrow> (exn + unit) \<times> span \<times> world" where
  "found_block sp w = (Inr (), set_attribute ''found'' (PBool True) sp, w)"


text \<open>
  A request, a handler whose exception no exception handler of the application turns into
  a response, a handler that answers 404, one that answers 200, and a clock whose readings
  are \<^verbatim>\<open>0.0\<close>, \<^verbatim>\<open>5e-05\<close>, \<^verbatim>\<open>0.0001\<close> and so on.
\<close>

definition example_request :: request where
  "example_request = \<lparr>req_method = ''GET'', req_path = ''/clients/c-17/documents/42''\<rparr>"

definition crashing_handler :: "request \<Rightarrow> world \<Rightarrow> (exn + response) \<times> world" where
  "crashing_handler req w = (Inl (Exn ''RuntimeError'' ''database connection lost''), w)"

definition missing_handler :: "request \<Rightarrow> world \<Rightarrow> (exn + response) \<times> world" where
  "missing_handler req w =
     (Inr \<lparr>status_code = 404, headers = Map.empty, body = ''Document not found''\<rparr>, w)"



text \<open>
  Keyword arguments: as \<^verbatim>\<open>upload_document\<close> passes them to \<^verbatim>\<open>log_with_context\<close>; with a
  forged correlation id and a key that only the logger refuses; with a forged service and a
  key that only \<^verbatim>\<open>create_span\<close> refuses.
\<close>

definition upload_kwargs :: pydict where
  "upload_kwargs = [''client_id'' \<mapsto> PStr ''c-17'', ''file_name'' \<mapsto> PStr ''report.pdf'']"

definition span_kwargs :: pydict where
  "span_kwargs = [''correlation_id'' \<mapsto> PStr ''forged'', ''filename'' \<mapsto> PStr ''report.pdf'']"

definition log_kwargs :: pydict where
  "log_kwargs = [''service'' \<mapsto> PStr ''billing'', ''operation'' \<mapsto> PStr ''insert'']"

section \<open>Correlation id round trip\<close>

text \<open>
  Claim C6. Setting a correlation id and reading it back in the same context returns exactly
  that string, whatever the string and the earlier state; and in a context where no id was
  ever installed the read returns the empty string instead of failing
  (\<open>get_correlation_id\<close> is a total function with no error result).
\<close>

theorem correlation_id_round_trip:
  "get_correlation_id (set_correlation_id corr_id w) = corr_id
   \<and> get_correlation_id (set_correlation_id ''abc-123'' w) = ''abc-123''
   \<and> get_correlation_id (w\<lparr>ctx_correlation_id := None\<rparr>) = ''''
   \<and> get_correlation_id initial_world = ''''"
  by (simp add: get_correlation_id_def set_correlation_id_def correlation_id_default_def
      initial_world_def)

section \<open>The logger accepts what the code passes\<close>

lemma service_fields_not_reserved:
  "k \<in> set logrecord_attributes \<Longrightarrow> service_fields svc k = None"
  by (cases svc) (auto simp: logrecord_attributes_def)

lemma log_data_reserved:
  assumes "\<forall>k\<in>set logrecord_attributes. kwargs k = None"
  shows "\<not> list_ex (\<lambda>k. log_data_of svc message kwargs w k \<noteq> None) logrecord_attributes"
proof -
  have "log_data_of svc message kwargs w k = None" if "k \<in> set logrecord_attributes" for k
    using that assms service_fields_not_reserved[OF that, of svc]
    by (auto simp: log_data_of_def map_add_def logrecord_attributes_def split: option.splits)
  then show ?thesis by (simp add: list_ex_iff)
qed

lemma enabled_levels:
  "isEnabledFor Info" "isEnabledFor Warning" "isEnabledFor Error" "isEnabledFor Critical"
  "\<not> isEnabledFor Debug"
  by (simp_all add: isEnabledFor_def effective_level_def)

lemma logger_log_accepts:
  "\<not> list_ex (\<lambda>k. extra k \<noteq> None) logrecord_attributes \<Longrightarrow>
   logger_log lvl msg extra w =
     (Inr (), w\<lparr>log_records := log_records w
                  @ (if isEnabledFor lvl
                     then [\<lparr>lr_level = lvl, lr_message = msg, lr_extra = extra\<rparr>]
                     else [])\<rparr>)"
  by (simp add: logger_log_def)

lemma log_with_context_dispatch:
  "\<not> binds_parameter [''message'', ''level''] kwargs \<Longrightarrow>
   log_with_context svc message level kwargs w =
     logger_log (severity level) message (log_data_of svc message kwargs w)
       (w\<lparr>ticks := ticks w + 1\<rparr>)"
  by (simp add: log_with_context_def time_time_def severity_def log_data_of_def Let_def
      get_correlation_id_def)

lemma log_with_context_accepted:
  assumes "\<not> binds_parameter [''message'', ''level''] kwargs"
      and "\<forall>k\<in>set logrecord_attributes. kwargs k = None"
  shows "log_with_context svc message level kwargs w =
           (Inr (), w\<lparr>ticks := ticks w + 1,
                      log_records := log_records w
                        @ (if isEnabledFor (severity level)
                           then [\<lparr>lr_level = severity level, lr_message = message,
                                  lr_extra = log_data_of svc message kwargs w\<rparr>]
                           else [])\<rparr>)"
  by (simp add: log_with_context_dispatch[OF assms(1)]
      logger_log_accepts[OF log_data_reserved[OF assms(2)]])

lemma exit_kwargs_ok:
  "\<not> binds_parameter [''message'', ''level'']
       [''operation'' \<mapsto> a, ''table'' \<mapsto> b, ''error'' \<mapsto> c, ''duration'' \<mapsto> d]"
  "\<forall>k\<in>set logrecord_attributes.
       [''operation'' \<mapsto> a, ''table'' \<mapsto> b, ''error'' \<mapsto> c, ''duration'' \<mapsto> d] k = None"
  "\<not> binds_parameter [''message'', ''level'']
       [''operation'' \<mapsto> a, ''table'' \<mapsto> b, ''duration'' \<mapsto> d]"
  "\<forall>k\<in>set logrecord_attributes.
       [''operation'' \<mapsto> a, ''table'' \<mapsto> b, ''duration'' \<mapsto> d] k = None"
  by (simp_all add: binds_parameter_def logrecord_attributes_def)

section \<open>Leaving a tracked scope\<close>

lemma enter_effect:
  "DBOperationTracker_enter tr w =
     (tr\<lparr>tr_start_time := Some (clock w (ticks w))\<rparr>, w\<lparr>ticks := ticks w + 1\<rparr>)"
  by (simp add: DBOperationTracker_enter_def time_time_def)




lemma exit_raised_eq:
  assumes "tr_start_time tr = Some st"
  shows "DBOperationTracker_exit (Some e) tr w =
    (Inr False,
     tr\<lparr>tr_span := span_end
        (set_attribute ''error_type'' (PStr (exc_type_name e))
          (set_attribute ''error'' (PStr (exc_str e))
            (set_attribute ''operation_type'' (PStr (tr_operation tr))
              (set_attribute ''table'' (PStr (tr_table tr))
                (set_attribute ''success'' (PBool False)
                  (set_attribute ''duration'' (PFloat (clock w (ticks w) - st))
                    (tr_span tr)))))))\<rparr>,
     w\<lparr>ticks := ticks w + 2,
       samples := samples w
         @ [\<lparr>instrument = ''database_operations_total'', amount = PInt 1,
              labels = [''operation'' \<mapsto> PStr (tr_operation tr),
                        ''table'' \<mapsto> PStr (tr_table tr),
                        ''success'' \<mapsto> PBool False,
                        ''correlation_id'' \<mapsto> PStr (tr_correlation_id tr)]
                       ++ service_fields DataStore\<rparr>,
            \<lparr>instrument = ''database_operation_duration_seconds'',
              amount = PFloat (clock w (ticks w) - st),
              labels = [''operation'' \<mapsto> PStr (tr_operation tr),
                        ''table'' \<mapsto> PStr (tr_table tr),
                        ''correlation_id'' \<mapsto> PStr (tr_correlation_id tr)]
                       ++ service_fields DataStore\<rparr>],
       log_records := log_records w
         @ [\<lparr>lr_level = Error,
              lr_message = ''Database operation failed: '' @ tr_operation tr @ '' on ''
                             @ tr_table tr,
              lr_extra = log_data_of DataStore
                 (''Database operation failed: '' @ tr_operation tr @ '' on '' @ tr_table tr)
                 [''operation'' \<mapsto> PStr (tr_operation tr),
                  ''table'' \<mapsto> PStr (tr_table tr),
                  ''error'' \<mapsto> PStr (exc_str e),
                  ''duration'' \<mapsto> PFloat (clock w (ticks w) - st)]
                 (w\<lparr>ticks := ticks w + 1\<rparr>)\<rparr>]\<rparr>)"
proof -
  have sev: "severity ''error'' = Error" by (simp add: severity_def)
  show ?thesis
    using assms
    by (simp add: DBOperationTracker_exit_def Let_def time_time_def
        log_with_context_accepted[OF exit_kwargs_ok(1,2)] sev enabled_levels
        counter_add_def histogram_record_def log_data_of_def get_correlation_id_def
        del: service_fields.simps)
qed

lemma exit_completed_eq:
  assumes "tr_start_time tr = Some st"
  shows "DBOperationTracker_exit None tr w =
    (Inr False,
     tr\<lparr>tr_span := span_end
        (set_attribute ''operation_type'' (PStr (tr_operation tr))
          (set_attribute ''table'' (PStr (tr_table tr))
            (set_attribute ''success'' (PBool True)
              (set_attribute ''duration'' (PFloat (clock w (ticks w) - st))
                (tr_span tr)))))\<rparr>,
     w\<lparr>ticks := ticks w + 2,
       samples := samples w
         @ [\<lparr>instrument = ''database_operations_total'', amount = PInt 1,
              labels = [''operation'' \<mapsto> PStr (tr_operation tr),
                        ''table'' \<mapsto> PStr (tr_table tr),
                        ''success'' \<mapsto> PBool True,
                        ''correlation_id'' \<mapsto> PStr (tr_correlation_id tr)]
                       ++ service_fields DataStore\<rparr>,
            \<lparr>instrument = ''database_operation_duration_seconds'',
              amount = PFloat (clock w (ticks w) - st),
              labels = [''operation'' \<mapsto> PStr (tr_operation tr),
                        ''table'' \<mapsto> PStr (tr_table tr),
                        ''correlation_id'' \<mapsto> PStr (tr_correlation_id tr)]
                       ++ service_fields DataStore\<rparr>]\<rparr>)"
proof -
  have sev: "severity ''debug'' = Debug" by (simp add: severity_def)
  show ?thesis
    using assms
    by (simp add: DBOperationTracker_exit_def Let_def time_time_def
        log_with_context_accepted[OF exit_kwargs_ok(3,4)] sev enabled_levels
        counter_add_def histogram_record_def
        del: service_fields.simps)
qed

lemma tracker_fields:
  assumes "track_db_operation operation table attributes w = Inr tr"
  shows "tr_operation tr = operation" "tr_table tr = table"
        "tr_correlation_id tr = get_correlation_id w"
        "span_end_calls (tr_span tr) = 0"
  using assms
  by (auto simp: track_db_operation_def create_span_def Let_def start_span_def
      split: if_splits)

lemma scope_raised:
  assumes "track_db_operation operation table attributes w = Inr tr"
      and "block (tr_span tr) (snd (DBOperationTracker_enter tr w)) = (Inl e, sp, w2)"
  shows "with_track_db_operation operation table attributes block w =
           (Inl e,
            Some (tr_span (fst (snd (DBOperationTracker_exit (Some e)
                    (tr\<lparr>tr_start_time := Some (clock w (ticks w)), tr_span := sp\<rparr>) w2)))),
            snd (snd (DBOperationTracker_exit (Some e)
                    (tr\<lparr>tr_start_time := Some (clock w (ticks w)), tr_span := sp\<rparr>) w2)))"
proof -
  have st: "tr_start_time (tr\<lparr>tr_start_time := Some (clock w (ticks w)), tr_span := sp\<rparr>)
              = Some (clock w (ticks w))"
    by simp
  show ?thesis
    using assms
    by (simp add: with_track_db_operation_def enter_effect exit_raised_eq[OF st])
qed

lemma scope_completed:
  assumes "track_db_operation operation table attributes w = Inr tr"
      and "block (tr_span tr) (snd (DBOperationTracker_enter tr w)) = (Inr v, sp, w2)"
  shows "with_track_db_operation operation table attributes block w =
           (Inr (Some v),
            Some (tr_span (fst (snd (DBOperationTracker_exit None
                    (tr\<lparr>tr_start_time := Some (clock w (ticks w)), tr_span := sp\<rparr>) w2)))),
            snd (snd (DBOperationTracker_exit None
                    (tr\<lparr>tr_start_time := Some (clock w (ticks w)), tr_span := sp\<rparr>) w2)))"
proof -
  have st: "tr_start_time (tr\<lparr>tr_start_time := Some (clock w (ticks w)), tr_span := sp\<rparr>)
              = Some (clock w (ticks w))"
    by simp
  show ?thesis
    using assms
    by (simp add: with_track_db_operation_def enter_effect exit_completed_eq[OF st])
qed

lemma example_tracker_made:
  "track_db_operation ''select'' ''documentmetadata'' example_attributes example_world
     = Inr (projr (track_db_operation ''select'' ''documentmetadata'' example_attributes
                     example_world))"
  by (simp add: track_db_operation_def create_span_def binds_parameter_def
      example_attributes_def Let_def)

section \<open>A tracked scope whose block raises\<close>




section \<open>A tracked scope, whatever the outcome\<close>




section \<open>The name of the tracked span\<close>

text \<open>
  The span of \<^verbatim>\<open>track_db_operation("insert", "documentmetadata")\<close> is named
  \<^verbatim>\<open>db_insert\<close>, not \<^verbatim>\<open>insert_documentmetadata\<close>.
\<close>

theorem span_name_counterexample:
  "map_sum id (span_name \<circ> tr_span)
     (track_db_operation ''insert'' ''documentmetadata'' Map.empty initial_world)
     = Inr ''db_insert''
   \<and> ''db_insert'' \<noteq> ''insert'' @ ''_'' @ ''documentmetadata''"
  by (simp add: track_db_operation_def create_span_def binds_parameter_def Let_def
      start_span_def)

text \<open>
  Claim C3, amended. A call \<^verbatim>\<open>track_db_operation(operation, table, **attributes)\<close> whose
  keyword arguments do not collide with a parameter name (\<^verbatim>\<open>operation\<close>, \<^verbatim>\<open>table\<close>, or
  \<^verbatim>\<open>name\<close> of \<^verbatim>\<open>create_span\<close>) returns a tracker whose span is named \<^verbatim>\<open>db_\<close> followed by
  the operation; the table is not part of the name but the span attribute \<^verbatim>\<open>table\<close>, and
  the attribute \<^verbatim>\<open>operation\<close> is the constant \<^verbatim>\<open>database_operation\<close>.
\<close>

theorem tracked_span_name:
  assumes "\<not> binds_parameter [''operation'', ''table'', ''name''] attributes"
  shows "\<exists>tr. track_db_operation operation table attributes w = Inr tr
           \<and> span_name (tr_span tr) = ''db_'' @ operation
           \<and> span_attributes (tr_span tr) ''operation'' = Some (PStr ''database_operation'')
           \<and> span_attributes (tr_span tr) ''table'' = Some (PStr table)"
  using assms
  by (simp add: track_db_operation_def create_span_def binds_parameter_def Let_def
      start_span_def map_add_def)

theorem tracked_span_name_witness:
  "\<not> binds_parameter [''operation'', ''table'', ''name''] example_attributes
   \<and> (\<exists>tr. track_db_operation ''insert'' ''documentmetadata'' example_attributes
               example_world = Inr tr
           \<and> span_name (tr_span tr) = ''db_insert''
           \<and> span_attributes (tr_span tr) ''table'' = Some (PStr ''documentmetadata''))"
proof -
  have h: "\<not> binds_parameter [''operation'', ''table'', ''name''] example_attributes"
    by (simp add: binds_parameter_def example_attributes_def)
  show ?thesis
    using tracked_span_name[OF h, of "''insert''" "''documentmetadata''" example_world] h
    by auto
qed

section \<open>The timing middleware\<close>

text \<open>
  When the rest of the application raises, the middleware adds no sample: the exception
  leaves \<^verbatim>\<open>add_process_time_header\<close> at the \<^verbatim>\<open>await call_next(request)\<close>.
\<close>

theorem completion_step_counterexample:
  "fst (add_process_time_header DataStore crashing_handler example_request example_world)
     = Inl (Exn ''RuntimeError'' ''database connection lost'')
   \<and> samples (snd (add_process_time_header DataStore crashing_handler example_request
                     example_world)) = []"
  by (simp add: add_process_time_header_def crashing_handler_def time_time_def
      example_world_def initial_world_def set_correlation_id_def)

text \<open>
  Claim C4, amended. When \<^verbatim>\<open>call_next\<close> returns a response, the middleware returns it with
  only the header \<^verbatim>\<open>X-Process-Time\<close> set, to the text of the difference of its two clock
  readings, and appends one request counter increment, one duration sample of that
  difference and, exactly when the status code is at least 400, one error counter
  increment, and adds no log record. When \<^verbatim>\<open>call_next\<close> raises, the same exception
  leaves the middleware and the state is as \<^verbatim>\<open>call_next\<close> left it.
\<close>

theorem completion_step:
  assumes "call_next req (snd (time_time w)) = (r, w2)"
      and "add_process_time_header svc call_next req w = (out, w_out)"
  shows "case r of
           Inl e \<Rightarrow> out = Inl e \<and> w_out = w2
         | Inr resp \<Rightarrow>
             out = Inr (resp\<lparr>headers := (headers resp)(''X-Process-Time'' \<mapsto>
                          float_str (clock w2 (ticks w2) - clock w (ticks w)))\<rparr>)
             \<and> samples w_out = samples w2 @ emitted w2 w_out
             \<and> map instrument (emitted w2 w_out) =
                  [''http_requests_total'', ''http_request_duration_seconds'']
                    @ (if status_code resp \<ge> 400 then [''http_errors_total''] else [])
             \<and> map amount (emitted w2 w_out) =
                  [PInt 1, PFloat (clock w2 (ticks w2) - clock w (ticks w))]
                    @ (if status_code resp \<ge> 400 then [PInt 1] else [])
             \<and> log_records w_out = log_records w2"
  using assms
  by (cases r)
     (auto simp: add_process_time_header_def time_time_def Let_def log_request_metrics_def
       counter_add_def histogram_record_def emitted_def)

theorem completion_step_witness:
  "let ran = missing_handler example_request (snd (time_time example_world));
       res = add_process_time_header DataStore missing_handler example_request example_world
   in fst ran = Inr \<lparr>status_code = 404, headers = Map.empty, body = ''Document not found''\<rparr>
      \<and> fst res = Inr \<lparr>status_code = 404,
                        headers = [''X-Process-Time'' \<mapsto> ''1.0''],
                        body = ''Document not found''\<rparr>
      \<and> map instrument (emitted (snd ran) (snd res)) =
           [''http_requests_total'', ''http_request_duration_seconds'', ''http_errors_total'']"
proof -
  let ?ran = "missing_handler example_request (snd (time_time example_world))"
  let ?res = "add_process_time_header DataStore missing_handler example_request example_world"
  have h1: "?ran = (Inr \<lparr>status_code = 404, headers = Map.empty,
                         body = ''Document not found''\<rparr>, snd ?ran)"
    by (simp add: missing_handler_def)
  have h2: "?res = (fst ?res, snd ?res)" by simp
  have clk: "clock (snd ?ran) (ticks (snd ?ran)) - clock example_world (ticks example_world)
               = Dec 1 0"
    by (simp add: missing_handler_def time_time_def example_world_def initial_world_def
        set_correlation_id_def minus_pyfloat_def)
  have shown: "float_str (Dec 1 0) = ''1.0''"
    by (simp add: float_str_def repr_digits_def repr_decpt_def str_nat.simps)
  have g1: "fst ?ran = Inr \<lparr>status_code = 404, headers = Map.empty,
                         body = ''Document not found''\<rparr>"
    by (simp add: missing_handler_def)
  show ?thesis
    using completion_step[OF h1 h2] g1
    by (simp add: Let_def clk shown)
qed

section \<open>The structured logger\<close>

text \<open>
  \<^verbatim>\<open>log_with_context("...", level="info", filename="report.pdf")\<close> raises the logger's
  \<^verbatim>\<open>KeyError\<close>: nothing in the function catches it.
\<close>

theorem log_with_context_counterexample:
  "fst (log_with_context DocumentApi ''File processed successfully'' ''info''
          [''filename'' \<mapsto> PStr ''report.pdf''] example_world)
     = Inl (Exn ''KeyError'' ''Attempt to overwrite an attribute in LogRecord'')"
  by (simp add: log_with_context_def binds_parameter_def time_time_def logger_log_def
      logrecord_attributes_def Let_def isEnabledFor_def effective_level_def)

text \<open>
  Claim C5, amended. \<^verbatim>\<open>log_with_context\<close> returns normally whenever no keyword argument is
  named like one of its parameters or like an attribute of the log record; it then has made
  exactly one logger call, at the level its level string names (\<^verbatim>\<open>info\<close> for any other
  string), with the dict \<open>log_data_of\<close>, and has read the clock once. The call adds one
  record, unless the level is \<^verbatim>\<open>debug\<close>, which the logger's level disables.
\<close>

theorem log_with_context_returns:
  assumes "\<not> binds_parameter ([''message'', ''level''] @ logrecord_attributes) kwargs"
  shows "log_with_context svc message level kwargs w =
           (Inr (), w\<lparr>ticks := ticks w + 1,
                      log_records := log_records w
                        @ (if severity level = Debug then []
                           else [\<lparr>lr_level = severity level, lr_message = message,
                                  lr_extra = log_data_of svc message kwargs w\<rparr>])\<rparr>)"
proof -
  have nb: "\<not> binds_parameter [''message'', ''level''] kwargs"
    using assms by (simp add: binds_parameter_def)
  have nr: "\<forall>k\<in>set logrecord_attributes. kwargs k = None"
    using assms by (simp add: binds_parameter_def list_ex_iff)
  have en: "isEnabledFor lvl \<longleftrightarrow> lvl \<noteq> Debug" for lvl
    by (cases lvl) (simp_all add: enabled_levels)
  show ?thesis
    by (simp add: log_with_context_accepted[OF nb nr] en)
qed

theorem log_with_context_returns_witness:
  "\<not> binds_parameter ([''message'', ''level''] @ logrecord_attributes) upload_kwargs
   \<and> fst (log_with_context DocumentApi ''File processed successfully'' ''verbose''
            upload_kwargs example_world) = Inr ()
   \<and> map lr_level (log_records (snd (log_with_context DocumentApi
            ''File processed successfully'' ''verbose'' upload_kwargs example_world)))
       = [Info]"
proof -
  have h: "\<not> binds_parameter ([''message'', ''level''] @ logrecord_attributes) upload_kwargs"
    by (simp add: binds_parameter_def logrecord_attributes_def upload_kwargs_def)
  have r: "log_records example_world = []"
    by (simp add: example_world_def initial_world_def set_correlation_id_def)
  show ?thesis
    using log_with_context_returns[OF h, of DocumentApi "''File processed successfully''"
        "''verbose''" example_world] h r
    by (simp add: severity_def)
qed

section \<open>The text of a float\<close>












section \<open>The processing-time header\<close>




section \<open>Caller-supplied keys come last\<close>

lemma service_fields_service:
  "service_fields svc ''service'' = Some (PStr (service_name svc))"
  "service_fields svc ''correlation_id'' = None"
  by (cases svc; simp)+

lemma log_data_of_lookup:
  "log_data_of svc message kw w ''correlation_id''
     = Some (case kw ''correlation_id'' of None \<Rightarrow> PStr (get_correlation_id w) | Some v \<Rightarrow> v)"
  "log_data_of svc message kw w ''service''
     = Some (case kw ''service'' of None \<Rightarrow> PStr (service_name svc) | Some v \<Rightarrow> v)"
  "kw k = Some v \<Longrightarrow> log_data_of svc message kw w k = Some v"
  by (simp_all add: log_data_of_def map_add_def service_fields_service split: option.splits)

lemma log_with_context_records:
  "log_records (snd (log_with_context svc message level kw w)) = log_records w
   \<or> log_records (snd (log_with_context svc message level kw w))
        = log_records w @ [\<lparr>lr_level = severity level, lr_message = message,
                             lr_extra = log_data_of svc message kw w\<rparr>]"
proof (cases "binds_parameter [''message'', ''level''] kw")
  case True
  then show ?thesis by (simp add: log_with_context_def)
next
  case False
  then show ?thesis
    by (simp add: log_with_context_dispatch logger_log_def)
qed

text \<open>
  Claim C10. In \<^verbatim>\<open>create_span\<close> and \<^verbatim>\<open>log_with_context\<close> the caller's keyword arguments are
  merged after the built-in entries. Every call of \<^verbatim>\<open>create_span\<close> either raises the
  \<^verbatim>\<open>TypeError\<close> of a keyword named like a parameter or returns a span whose attribute
  \<^verbatim>\<open>correlation_id\<close> is the caller's value if one was passed and the active correlation
  id otherwise, whose attribute \<^verbatim>\<open>service\<close> is the caller's value if one was passed and
  the service's name otherwise, and which has every keyword argument as passed. Every call
  of \<^verbatim>\<open>log_with_context\<close> adds no record or exactly one, and that record's fields are
  merged the same way; it adds one whenever no keyword is named like a parameter or an
  attribute of the log record and the level is not \<^verbatim>\<open>debug\<close>.
\<close>

theorem caller_keys_override:
  "(case create_span svc name operation kw w of
      Inl e \<Rightarrow> binds_parameter [''name'', ''operation''] kw
    | Inr sp \<Rightarrow>
        \<not> binds_parameter [''name'', ''operation''] kw
        \<and> span_attributes sp ''correlation_id''
            = Some (case kw ''correlation_id'' of
                      None \<Rightarrow> PStr (get_correlation_id w) | Some v \<Rightarrow> v)
        \<and> span_attributes sp ''service''
            = Some (case kw ''service'' of None \<Rightarrow> PStr (service_name svc) | Some v \<Rightarrow> v)
        \<and> (\<forall>k v. kw k = Some v \<longrightarrow> span_attributes sp k = Some v))
   \<and> (log_records (snd (log_with_context svc message level kw w)) = log_records w
       \<or> (\<exists>l. log_records (snd (log_with_context svc message level kw w))
                 = log_records w @ [l]
             \<and> lr_extra l ''correlation_id''
                 = Some (case kw ''correlation_id'' of
                           None \<Rightarrow> PStr (get_correlation_id w) | Some v \<Rightarrow> v)
             \<and> lr_extra l ''service''
                 = Some (case kw ''service'' of
                           None \<Rightarrow> PStr (service_name svc) | Some v \<Rightarrow> v)
             \<and> (\<forall>k v. kw k = Some v \<longrightarrow> lr_extra l k = Some v)))
   \<and> (\<not> binds_parameter ([''message'', ''level''] @ logrecord_attributes) kw
        \<and> severity level \<noteq> Debug
       \<longrightarrow> fst (log_with_context svc message level kw w) = Inr ()
           \<and> length (log_records (snd (log_with_context svc message level kw w)))
               = length (log_records w) + 1)"
proof -
  have span: "case create_span svc name operation kw w of
      Inl e \<Rightarrow> binds_parameter [''name'', ''operation''] kw
    | Inr sp \<Rightarrow>
        \<not> binds_parameter [''name'', ''operation''] kw
        \<and> span_attributes sp ''correlation_id''
            = Some (case kw ''correlation_id'' of
                      None \<Rightarrow> PStr (get_correlation_id w) | Some v \<Rightarrow> v)
        \<and> span_attributes sp ''service''
            = Some (case kw ''service'' of None \<Rightarrow> PStr (service_name svc) | Some v \<Rightarrow> v)
        \<and> (\<forall>k v. kw k = Some v \<longrightarrow> span_attributes sp k = Some v)"
    by (simp add: create_span_def Let_def start_span_def map_add_def service_fields_service
        split: option.splits)
  have logged: "log_records (snd (log_with_context svc message level kw w)) = log_records w
       \<or> (\<exists>l. log_records (snd (log_with_context svc message level kw w))
                 = log_records w @ [l]
             \<and> lr_extra l ''correlation_id''
                 = Some (case kw ''correlation_id'' of
                           None \<Rightarrow> PStr (get_correlation_id w) | Some v \<Rightarrow> v)
             \<and> lr_extra l ''service''
                 = Some (case kw ''service'' of
                           None \<Rightarrow> PStr (service_name svc) | Some v \<Rightarrow> v)
             \<and> (\<forall>k v. kw k = Some v \<longrightarrow> lr_extra l k = Some v))"
    using log_with_context_records[of svc message level kw w]
    by (auto simp: log_data_of_lookup)
  have emits: "fst (log_with_context svc message level kw w) = Inr ()
           \<and> length (log_records (snd (log_with_context svc message level kw w)))
               = length (log_records w) + 1"
    if h: "\<not> binds_parameter ([''message'', ''level''] @ logrecord_attributes) kw"
      and lv: "severity level \<noteq> Debug"
  proof -
    have nb: "\<not> binds_parameter [''message'', ''level''] kw"
      using h by (simp add: binds_parameter_def)
    have nr: "\<forall>k\<in>set logrecord_attributes. kw k = None"
      using h by (simp add: binds_parameter_def list_ex_iff)
    have "isEnabledFor (severity level)"
      using lv by (cases "severity level") (simp_all add: enabled_levels)
    then show ?thesis
      by (simp add: log_with_context_accepted[OF nb nr])
  qed
  show ?thesis
    using span logged emits by blast
qed

theorem caller_keys_override_witness:
  "(\<exists>sp. create_span DataStore ''create_document'' ''document_creation'' span_kwargs
            example_world = Inr sp
        \<and> span_attributes sp ''correlation_id'' = Some (PStr ''forged'')
        \<and> span_attributes sp ''service'' = Some (PStr ''data-store''))
   \<and> \<not> binds_parameter ([''message'', ''level''] @ logrecord_attributes) log_kwargs
   \<and> severity ''info'' \<noteq> Debug
   \<and> (\<exists>l. log_records (snd (log_with_context DataStore ''stored'' ''info'' log_kwargs
                               example_world)) = [l]
        \<and> lr_extra l ''correlation_id'' = Some (PStr ''abc-123'')
        \<and> lr_extra l ''service'' = Some (PStr ''billing''))"
proof -
  have made: "create_span DataStore ''create_document'' ''document_creation'' span_kwargs
                example_world
     = Inr (projr (create_span DataStore ''create_document'' ''document_creation''
                     span_kwargs example_world))"
    by (simp add: create_span_def binds_parameter_def span_kwargs_def Let_def)
  have k1: "span_kwargs ''correlation_id'' = Some (PStr ''forged'')"
    "span_kwargs ''service'' = None"
    "log_kwargs ''correlation_id'' = None" "log_kwargs ''service'' = Some (PStr ''billing'')"
    by (simp_all add: span_kwargs_def log_kwargs_def)
  have h: "\<not> binds_parameter ([''message'', ''level''] @ logrecord_attributes) log_kwargs"
    by (simp add: binds_parameter_def logrecord_attributes_def log_kwargs_def)
  have lv: "severity ''info'' \<noteq> Debug"
    by (simp add: severity_def)
  have cid: "get_correlation_id example_world = ''abc-123''"
    "log_records example_world = []"
    by (simp_all add: example_world_def get_correlation_id_def set_correlation_id_def
        initial_world_def)
  obtain sp where sp: "create_span DataStore ''create_document'' ''document_creation''
                         span_kwargs example_world = Inr sp"
    using made by blast
  have a: "\<exists>sp. create_span DataStore ''create_document'' ''document_creation'' span_kwargs
            example_world = Inr sp
        \<and> span_attributes sp ''correlation_id'' = Some (PStr ''forged'')
        \<and> span_attributes sp ''service'' = Some (PStr ''data-store'')"
    using caller_keys_override[where svc = DataStore and name = "''create_document''"
        and operation = "''document_creation''" and kw = span_kwargs and w = example_world
        and message = "''stored''" and level = "''info''", THEN conjunct1]
    by (simp add: sp k1)
  have grown: "log_records (snd (log_with_context DataStore ''stored'' ''info'' log_kwargs
                                   example_world)) \<noteq> log_records example_world"
    using caller_keys_override[where svc = DataStore and name = "''create_document''"
        and operation = "''document_creation''" and kw = log_kwargs and w = example_world
        and message = "''stored''" and level = "''info''", THEN conjunct2, THEN conjunct2]
      h lv
    by (auto simp: cid)
  have b: "\<exists>l. log_records (snd (log_with_context DataStore ''stored'' ''info'' log_kwargs
                               example_world)) = [l]
        \<and> lr_extra l ''correlation_id'' = Some (PStr ''abc-123'')
        \<and> lr_extra l ''service'' = Some (PStr ''billing'')"
    using caller_keys_override[where svc = DataStore and name = "''create_document''"
        and operation = "''document_creation''" and kw = log_kwargs and w = example_world
        and message = "''stored''" and level = "''info''", THEN conjunct2, THEN conjunct1]
      grown
    by (auto simp: k1 cid)
  show ?thesis
    using a b h lv by blast
qed

section \<open>Labels of the metric samples\<close>

lemma request_metrics_identity:
  "\<forall>s\<in>set (emitted w (log_request_metrics svc req resp duration w)).
       carries_identity svc (get_correlation_id w) s"
  by (cases svc)
     (simp_all add: emitted_def log_request_metrics_def Let_def counter_add_def
       histogram_record_def carries_identity_def map_add_def)

lemma scope_identity:
  assumes "track_db_operation operation table attributes w = Inr tr"
      and "block (tr_span tr) (snd (DBOperationTracker_enter tr w)) = (r, sp, w2)"
  shows "map instrument
           (emitted w2 (snd (snd (with_track_db_operation operation table attributes block w))))
           = [''database_operations_total'', ''database_operation_duration_seconds'']
         \<and> (\<forall>s\<in>set (emitted w2
                  (snd (snd (with_track_db_operation operation table attributes block w)))).
               carries_identity DataStore (get_correlation_id w) s)"
proof -
  have st: "tr_start_time (tr\<lparr>tr_start_time := Some t, tr_span := sp\<rparr>) = Some t" for t
    by simp
  have cid: "tr_correlation_id tr = get_correlation_id w"
    by (rule tracker_fields(3)[OF assms(1)])
  show ?thesis
  proof (cases r)
    case (Inl e)
    then show ?thesis
      using scope_raised[where block = block, OF assms(1)] assms(2) cid
      by (simp add: exit_raised_eq[OF st] emitted_def carries_identity_def map_add_def)
  next
    case (Inr v)
    then show ?thesis
      using scope_completed[where block = block, OF assms(1)] assms(2) cid
      by (simp add: exit_completed_eq[OF st] emitted_def carries_identity_def map_add_def)
  qed
qed

lemma health_kwargs_ok:
  "\<not> binds_parameter [''message'', ''level''] Map.empty"
  "\<forall>k\<in>set logrecord_attributes. Map.empty k = None"
  "\<not> binds_parameter [''message'', ''level'']
       [''overall_status'' \<mapsto> a, ''fs_status'' \<mapsto> b, ''data_store_status'' \<mapsto> c]"
  "\<forall>k\<in>set logrecord_attributes.
       [''overall_status'' \<mapsto> a, ''fs_status'' \<mapsto> b, ''data_store_status'' \<mapsto> c] k = None"
  "\<not> binds_parameter [''message'', ''level'']
       [''overall_status'' \<mapsto> a, ''db_status'' \<mapsto> b, ''tables_status'' \<mapsto> c,
        ''db_latency'' \<mapsto> d]"
  "\<forall>k\<in>set logrecord_attributes.
       [''overall_status'' \<mapsto> a, ''db_status'' \<mapsto> b, ''tables_status'' \<mapsto> c,
        ''db_latency'' \<mapsto> d] k = None"
  by (simp_all add: binds_parameter_def logrecord_attributes_def)

lemma health_check_failed_eq:
  "health_check_failed svc start_time e w =
     (Inr \<lparr>hr_status = ''unhealthy'', hr_error = Some (exc_str e)\<rparr>,
      w\<lparr>ticks := ticks w + 2,
        samples := samples w
          @ [\<lparr>instrument = ''health_check_total'', amount = PInt 1,
               labels = [''status'' \<mapsto> PStr ''unhealthy'']\<rparr>,
             \<lparr>instrument = ''health_check_duration_seconds'',
               amount = PFloat (clock w (ticks w) - start_time), labels = Map.empty\<rparr>],
        log_records := log_records w
          @ [\<lparr>lr_level = Error, lr_message = ''Health check failed: '' @ exc_str e,
               lr_extra = log_data_of svc (''Health check failed: '' @ exc_str e) Map.empty
                 (w\<lparr>ticks := ticks w + 1\<rparr>)\<rparr>]\<rparr>)"
proof -
  have sev: "severity ''error'' = Error" by (simp add: severity_def)
  show ?thesis
    by (simp add: health_check_failed_def Let_def time_time_def counter_add_def
        histogram_record_def log_with_context_accepted[OF health_kwargs_ok(1,2)] sev
        enabled_levels log_data_of_def get_correlation_id_def)
qed

lemma health_check_samples:
  "map instrument (emitted w (snd (health_check fs_ok settings probe w)))
       = [''health_check_total'', ''health_check_duration_seconds'']
   \<and> map (\<lambda>s. (labels s ''service'', labels s ''correlation_id''))
         (emitted w (snd (health_check fs_ok settings probe w)))
       = [(None, None), (None, None)]"
proof -
  have sev: "severity ''info'' = Info" by (simp add: severity_def)
  show ?thesis
    by (cases settings; cases probe)
       (simp_all add: health_check_def health_check_failed_eq Let_def time_time_def
         counter_add_def histogram_record_def emitted_def sev enabled_levels
         log_with_context_accepted[OF health_kwargs_ok(3,4)])
qed

lemma health_db_check_samples:
  "samples (snd (health_db_check start_time db_query db_close w)) = samples w"
proof -
  have sev: "severity ''error'' = Error" by (simp add: severity_def)
  show ?thesis
    by (cases db_query; cases db_close)
       (simp_all add: health_db_check_def Let_def time_time_def sev enabled_levels
         log_with_context_accepted[OF health_kwargs_ok(1,2)])
qed

lemma health_tables_check_samples:
  "samples (snd (health_tables_check tables_query tables_close w)) = samples w"
proof -
  have sev: "severity ''error'' = Error" by (simp add: severity_def)
  show ?thesis
    by (cases tables_query; cases tables_close)
       (simp_all add: health_tables_check_def Let_def sev enabled_levels
         log_with_context_accepted[OF health_kwargs_ok(1,2)])
qed

lemma health_db_check_returns:
  "\<exists>status latency. fst (health_db_check start_time db_query db_close w)
      = Inr (status, latency)"
proof -
  have sev: "severity ''error'' = Error" by (simp add: severity_def)
  show ?thesis
    by (cases db_query; cases db_close)
       (simp_all add: health_db_check_def Let_def time_time_def sev enabled_levels
         log_with_context_accepted[OF health_kwargs_ok(1,2)])
qed

lemma health_tables_check_returns:
  "\<exists>status. fst (health_tables_check tables_query tables_close w) = Inr status"
proof -
  have sev: "severity ''error'' = Error" by (simp add: severity_def)
  show ?thesis
    by (cases tables_query; cases tables_close)
       (simp_all add: health_tables_check_def Let_def sev enabled_levels
         log_with_context_accepted[OF health_kwargs_ok(1,2)])
qed

lemma data_store_health_check_samples:
  "map instrument (emitted w (snd (data_store_health_check db_query db_close tables_query
                                      tables_close w)))
       = [''health_check_total'', ''health_check_duration_seconds'']
   \<and> map (\<lambda>s. (labels s ''service'', labels s ''correlation_id''))
         (emitted w (snd (data_store_health_check db_query db_close tables_query
                            tables_close w)))
       = [(None, None), (None, None)]"
proof -
  let ?w0 = "w\<lparr>ticks := Suc (ticks w)\<rparr>"
  let ?st = "clock w (ticks w)"
  obtain status latency where
    r1: "fst (health_db_check ?st db_query db_close ?w0) = Inr (status, latency)"
    using health_db_check_returns[of ?st db_query db_close ?w0] by blast
  define w1 where "w1 = snd (health_db_check ?st db_query db_close ?w0)"
  have db: "health_db_check ?st db_query db_close ?w0 = (Inr (status, latency), w1)"
    using r1 by (simp add: w1_def prod_eq_iff)
  have s1: "samples w1 = samples w"
    using health_db_check_samples[of ?st db_query db_close ?w0] by (simp add: w1_def)
  obtain tstatus where
    r2: "fst (health_tables_check tables_query tables_close w1) = Inr tstatus"
    using health_tables_check_returns[of tables_query tables_close w1] by blast
  define w2 where "w2 = snd (health_tables_check tables_query tables_close w1)"
  have tb: "health_tables_check tables_query tables_close w1 = (Inr tstatus, w2)"
    using r2 by (simp add: w2_def prod_eq_iff)
  have s2: "samples w2 = samples w"
    using health_tables_check_samples[of tables_query tables_close w1] s1
    by (simp add: w2_def)
  have sev: "severity ''info'' = Info" by (simp add: severity_def)
  show ?thesis
    using s2
    by (simp add: data_store_health_check_def time_time_def db tb Let_def counter_add_def
        histogram_record_def emitted_def sev enabled_levels
        log_with_context_accepted[OF health_kwargs_ok(5,6)])
qed

lemma no_identity:
  assumes "map (\<lambda>s. (labels s ''service'', labels s ''correlation_id'')) xs
             = [(None, None), (None, None)]"
  shows "\<forall>s\<in>set xs. labels s ''service'' = None \<and> labels s ''correlation_id'' = None"
proof
  fix s
  assume "s \<in> set xs"
  then have "(labels s ''service'', labels s ''correlation_id'')
               \<in> set (map (\<lambda>s. (labels s ''service'', labels s ''correlation_id'')) xs)"
    by simp
  then show "labels s ''service'' = None \<and> labels s ''correlation_id'' = None"
    unfolding assms by simp
qed

text \<open>
  The samples of a health check carry neither a service entry nor a correlation id, while
  the request has the correlation id \<^verbatim>\<open>abc-123\<close>.
\<close>

theorem health_samples_counterexample:
  "get_correlation_id example_world = ''abc-123''
   \<and> map (\<lambda>s. (instrument s, labels s ''correlation_id'', labels s ''service''))
         (samples (snd (health_check True (Inr ()) (Inr 200) example_world)))
       = [(''health_check_total'', None, None),
          (''health_check_duration_seconds'', None, None)]"
proof -
  have sev: "severity ''info'' = Info" by (simp add: severity_def)
  show ?thesis
    by (simp add: health_check_def time_time_def Let_def counter_add_def histogram_record_def
        log_with_context_accepted[OF health_kwargs_ok(3,4)] sev enabled_levels
        example_world_def initial_world_def set_correlation_id_def get_correlation_id_def)
qed

text \<open>
  Claim C7, amended. Every sample \<^verbatim>\<open>log_request_metrics\<close> emits (request counter, request
  duration, error counter) carries the service's name and the active correlation id.
  Leaving a \<^verbatim>\<open>track_db_operation\<close> scope emits exactly the operation counter sample and
  the operation duration sample, and both carry the data store's name and the correlation
  id that was active when \<^verbatim>\<open>track_db_operation\<close> was called. The health checks of both
  services emit one counter sample and one duration sample, and these carry neither a
  service label nor a correlation id.
\<close>

theorem metric_identity_labels:
  "(\<forall>s\<in>set (emitted w (log_request_metrics svc req resp duration w)).
       carries_identity svc (get_correlation_id w) s)
   \<and> (track_db_operation operation table attributes w = Inr tr
        \<and> block (tr_span tr) (snd (DBOperationTracker_enter tr w)) = (r, sp, w2)
       \<longrightarrow> map instrument (emitted w2
               (snd (snd (with_track_db_operation operation table attributes block w))))
             = [''database_operations_total'', ''database_operation_duration_seconds'']
           \<and> (\<forall>s\<in>set (emitted w2
                  (snd (snd (with_track_db_operation operation table attributes block w)))).
                 carries_identity DataStore (get_correlation_id w) s))
   \<and> map instrument (emitted w (snd (health_check fs_ok settings probe w)))
       = [''health_check_total'', ''health_check_duration_seconds'']
   \<and> (\<forall>s\<in>set (emitted w (snd (health_check fs_ok settings probe w))).
         labels s ''service'' = None \<and> labels s ''correlation_id'' = None)
   \<and> map instrument
         (emitted w (snd (data_store_health_check db_query db_close tables_query
                            tables_close w)))
       = [''health_check_total'', ''health_check_duration_seconds'']
   \<and> (\<forall>s\<in>set (emitted w (snd (data_store_health_check db_query db_close tables_query
                                    tables_close w))).
         labels s ''service'' = None \<and> labels s ''correlation_id'' = None)"
proof -
  have scope: "track_db_operation operation table attributes w = Inr tr
        \<and> block (tr_span tr) (snd (DBOperationTracker_enter tr w)) = (r, sp, w2)
       \<longrightarrow> map instrument (emitted w2
               (snd (snd (with_track_db_operation operation table attributes block w))))
             = [''database_operations_total'', ''database_operation_duration_seconds'']
           \<and> (\<forall>s\<in>set (emitted w2
                  (snd (snd (with_track_db_operation operation table attributes block w)))).
                 carries_identity DataStore (get_correlation_id w) s)"
  proof (intro impI, elim conjE)
    assume a: "track_db_operation operation table attributes w = Inr tr"
      and b: "block (tr_span tr) (snd (DBOperationTracker_enter tr w)) = (r, sp, w2)"
    show "map instrument (emitted w2
               (snd (snd (with_track_db_operation operation table attributes block w))))
             = [''database_operations_total'', ''database_operation_duration_seconds'']
           \<and> (\<forall>s\<in>set (emitted w2
                  (snd (snd (with_track_db_operation operation table attributes block w)))).
                 carries_identity DataStore (get_correlation_id w) s)"
      by (rule scope_identity[where block = block, OF a b])
  qed
  note doc = health_check_samples[of w fs_ok settings probe]
  note store = data_store_health_check_samples[of w db_query db_close tables_query
      tables_close]
  show ?thesis
    apply (intro conjI)
         apply (rule request_metrics_identity)
        apply (rule scope)
       apply (rule conjunct1[OF doc])
      apply (rule no_identity[OF conjunct2[OF doc]])
     apply (rule conjunct1[OF store])
    apply (rule no_identity[OF conjunct2[OF store]])
    done
qed

lemma identity_rows:
  assumes "map instrument xs = ns"
      and "\<forall>s\<in>set xs. carries_identity svc cid s"
  shows "map (\<lambda>s. (instrument s, labels s ''service'', labels s ''correlation_id'')) xs
           = map (\<lambda>n. (n, Some (PStr (service_name svc)), Some (PStr cid))) ns"
  using assms
  by (induction xs arbitrary: ns) (auto simp: carries_identity_def)

theorem metric_identity_labels_witness:
  "let tr = projr (track_db_operation ''select'' ''documentmetadata'' example_attributes
                     example_world);
       ran = found_block (tr_span tr) (snd (DBOperationTracker_enter tr example_world));
       res = with_track_db_operation ''select'' ''documentmetadata'' example_attributes
               found_block example_world
   in map (\<lambda>s. (instrument s, labels s ''service'', labels s ''correlation_id''))
        (emitted example_world
           (log_request_metrics DocumentApi example_request
              \<lparr>status_code = 200, headers = Map.empty, body = ''ok''\<rparr> (Dec 1 0)
              example_world))
      = [(''http_requests_total'', Some (PStr ''document-api''), Some (PStr ''abc-123'')),
         (''http_request_duration_seconds'', Some (PStr ''document-api''),
            Some (PStr ''abc-123''))]
      \<and> track_db_operation ''select'' ''documentmetadata'' example_attributes example_world
           = Inr tr
      \<and> fst ran = Inr ()
      \<and> map (\<lambda>s. (instrument s, labels s ''service'', labels s ''correlation_id''))
           (emitted (snd (snd ran)) (snd (snd res)))
         = [(''database_operations_total'', Some (PStr ''data-store''),
               Some (PStr ''abc-123'')),
            (''database_operation_duration_seconds'', Some (PStr ''data-store''),
               Some (PStr ''abc-123''))]"
proof -
  let ?tr = "projr (track_db_operation ''select'' ''documentmetadata'' example_attributes
                      example_world)"
  let ?ran = "found_block (tr_span ?tr) (snd (DBOperationTracker_enter ?tr example_world))"
  let ?res = "with_track_db_operation ''select'' ''documentmetadata'' example_attributes
                found_block example_world"
  let ?resp = "\<lparr>status_code = 200, headers = Map.empty, body = ''ok''\<rparr>"
  let ?em = "emitted example_world
               (log_request_metrics DocumentApi example_request ?resp (Dec 1 0) example_world)"
  note T = metric_identity_labels[where w = example_world and svc = DocumentApi
      and req = example_request and resp = ?resp and duration = "Dec 1 0"
      and operation = "''select''" and table = "''documentmetadata''"
      and attributes = example_attributes and tr = ?tr and block = found_block
      and r = "Inr ()" and sp = "fst (snd ?ran)" and ?w2.0 = "snd (snd ?ran)"]
  have cid: "get_correlation_id example_world = ''abc-123''"
    by (simp add: example_world_def get_correlation_id_def set_correlation_id_def)
  have h2: "?ran = (Inr (), fst (snd ?ran), snd (snd ?ran))"
    by (simp add: found_block_def)
  have g2: "fst ?ran = Inr ()"
    by (simp add: found_block_def)
  have ins: "map instrument ?em = [''http_requests_total'', ''http_request_duration_seconds'']"
    by (simp add: emitted_def log_request_metrics_def Let_def counter_add_def
        histogram_record_def)
  have a: "map (\<lambda>s. (instrument s, labels s ''service'', labels s ''correlation_id'')) ?em
      = [(''http_requests_total'', Some (PStr ''document-api''), Some (PStr ''abc-123'')),
         (''http_request_duration_seconds'', Some (PStr ''document-api''),
            Some (PStr ''abc-123''))]"
    using identity_rows[OF ins, of DocumentApi "''abc-123''"] T[THEN conjunct1]
    by (simp add: cid)
  have scope: "map instrument (emitted (snd (snd ?ran)) (snd (snd ?res)))
             = [''database_operations_total'', ''database_operation_duration_seconds'']
           \<and> (\<forall>s\<in>set (emitted (snd (snd ?ran)) (snd (snd ?res))).
                 carries_identity DataStore (get_correlation_id example_world) s)"
    using T[THEN conjunct2, THEN conjunct1] example_tracker_made h2 by blast
  have b: "map (\<lambda>s. (instrument s, labels s ''service'', labels s ''correlation_id''))
           (emitted (snd (snd ?ran)) (snd (snd ?res)))
         = [(''database_operations_total'', Some (PStr ''data-store''),
               Some (PStr ''abc-123'')),
            (''database_operation_duration_seconds'', Some (PStr ''data-store''),
               Some (PStr ''abc-123''))]"
    using identity_rows[OF conjunct1[OF scope], of DataStore "''abc-123''"]
      conjunct2[OF scope]
    by (simp add: cid)
  show ?thesis
    unfolding Let_def using a b example_tracker_made g2 by blast
qed

end
